theory Spec2Isabelle
  imports Main
begin

section \<open>The license report generator\<close>

text \<open>
  The program is one function, \<^verbatim>\<open>main\<close> of \<^verbatim>\<open>license-check/generate-reports.py\<close>:
  it reads \<^verbatim>\<open>nuget-licenses.json\<close> and \<^verbatim>\<open>rush-dependencies.csv\<close> from
  \<^verbatim>\<open>./license-reports\<close>, and writes up to two sheets into
  \<^verbatim>\<open>license-report.xlsx\<close> in the same directory.

  Everything \<^verbatim>\<open>main\<close> does goes through library calls (\<^verbatim>\<open>open\<close>, \<^verbatim>\<open>json.load\<close>,
  \<^verbatim>\<open>pandas.read_csv\<close>, \<^verbatim>\<open>pandas.json_normalize\<close>, \<^verbatim>\<open>pandas.ExcelWriter\<close>,
  \<^verbatim>\<open>DataFrame.to_excel\<close>, \<^verbatim>\<open>print\<close>). The libraries are not part of the repository; each
  call is modelled below by a function of its own, named after the call, with the behaviour
  it is given stated next to it. The control flow of \<^verbatim>\<open>main\<close> is translated line by line
  on top of them. The import block (lines 1-11), which installs pandas and openpyxl when
  they cannot be imported, is left out.
\<close>

subsection \<open>Values\<close>

text \<open>
  What \<^verbatim>\<open>json.load\<close> returns: \<^verbatim>\<open>None\<close>, \<^verbatim>\<open>bool\<close>, \<^verbatim>\<open>int\<close>, \<^verbatim>\<open>float\<close>, \<^verbatim>\<open>str\<close>,
  \<^verbatim>\<open>list\<close> and \<^verbatim>\<open>dict\<close>. A float is kept as mantissa and decimal exponent (only whether it
  is zero is ever looked at). A \<^verbatim>\<open>dict\<close> keeps insertion order, so it is an association list.
\<close>

datatype json =
    JNull
  | JBool bool
  | JInt int
  | JFloat int int
  | JStr string
  | JArr "json list"
  | JObj "(string \<times> json) list"

text \<open>
  Python's truth value of an object, as \<^verbatim>\<open>if nuget_data:\<close> tests it: \<^verbatim>\<open>None\<close>, \<^verbatim>\<open>False\<close>,
  zero, the empty string, the empty list and the empty dict are false, all else is true.
\<close>

fun truthy :: "json \<Rightarrow> bool" where
  "truthy JNull = False"
| "truthy (JBool b) = b"
| "truthy (JInt i) = (i \<noteq> 0)"
| "truthy (JFloat m e) = (m \<noteq> 0)"
| "truthy (JStr s) = (s \<noteq> [])"
| "truthy (JArr xs) = (xs \<noteq> [])"
| "truthy (JObj kvs) = (kvs \<noteq> [])"

fun is_record :: "json \<Rightarrow> bool" where
  "is_record (JObj kvs) = True"
| "is_record _ = False"

fun members :: "json \<Rightarrow> (string \<times> json) list" where
  "members (JObj kvs) = kvs"
| "members _ = []"

definition is_array :: "json \<Rightarrow> bool" where
  "is_array j = (case j of JArr xs \<Rightarrow> True | _ \<Rightarrow> False)"

text \<open>
  A \<^verbatim>\<open>DataFrame\<close>: named columns and rows of cells; a cell that has no value (\<^verbatim>\<open>NaN\<close>) is
  \<open>None\<close>. The row index is left out: both sheets are written with \<^verbatim>\<open>index=False\<close>.
\<close>

type_synonym cell = "json option"

record dataframe =
  columns :: "string list"
  rows :: "cell list list"

text \<open>\<^verbatim>\<open>pd.DataFrame()\<close>: no columns, no rows.\<close>

definition DataFrame :: dataframe where
  "DataFrame = \<lparr>columns = [], rows = []\<rparr>"

text \<open>\<^verbatim>\<open>DataFrame.empty\<close>: true when any axis has length 0.\<close>

definition df_empty :: "dataframe \<Rightarrow> bool" where
  "df_empty df = (columns df = [] \<or> rows df = [])"

subsection \<open>Errors\<close>

datatype error =
    FileNotFoundError
  | JSONDecodeError
  | ParserError
  | EmptyDataError
  | NotImplementedError
  | SheetTooLarge
  | IllegalCharacterError
  | NoSuchDirectory
  | NoVisibleSheet
  | Unmodelled

text \<open>
  \<^item> \<open>FileNotFoundError\<close>: \<^verbatim>\<open>open\<close> or \<^verbatim>\<open>read_csv\<close> on a path that does not exist; the only
    exception \<^verbatim>\<open>main\<close> catches.
  \<^item> \<open>JSONDecodeError\<close>: \<^verbatim>\<open>json.load\<close> on a file that is not JSON.
  \<^item> \<open>ParserError\<close>, \<open>EmptyDataError\<close>: \<^verbatim>\<open>read_csv\<close> on a file it cannot tokenize, and on a
    file with no header line.
  \<^item> \<open>NotImplementedError\<close>: \<^verbatim>\<open>json_normalize\<close> on a value that is neither a list nor a dict.
  \<^item> \<open>SheetTooLarge\<close>: \<^verbatim>\<open>to_excel\<close> on a frame with more rows or columns than a sheet
    holds (a \<^verbatim>\<open>ValueError\<close>).
  \<^item> \<open>IllegalCharacterError\<close>: the openpyxl engine given a text with a control character
    that a workbook cannot hold.
  \<^item> \<open>NoSuchDirectory\<close>: \<^verbatim>\<open>ExcelWriter\<close> opening its target in a directory that does not
    exist (an \<^verbatim>\<open>OSError\<close>).
  \<^item> \<open>NoVisibleSheet\<close>: the openpyxl engine saving a workbook that has no sheet
    (\<^verbatim>\<open>IndexError: At least one sheet must be visible\<close>).
  \<^item> \<open>Unmodelled\<close>: not an exception of the program; it marks an input whose treatment by
    the library this development does not follow (see \<open>json_normalize\<close>).
\<close>

subsection \<open>The world the program runs in\<close>

text \<open>
  The two input files are kept as what their parser makes of them: a JSON file is either
  not JSON or a value; a CSV file is either not tokenizable, or a header line and data
  lines (no header line at all is the empty file).
\<close>

datatype json_doc = NotJson | JsonDoc json

datatype csv_doc = NotCsv | CsvDoc "string list" "cell list list"

text \<open>
  A sheet of a workbook: its name, its header row, and the data rows below it. The cells
  are the values that pandas hands to the engine; how an engine encodes a value in the
  file is not followed.
\<close>

record sheet =
  sheet_name :: string
  header :: "string list"
  data_rows :: "cell list list"

text \<open>
  The report file on disk: opened for writing and never saved (\<open>Unsaved\<close>); a saved
  workbook with its sheets in order (\<open>Workbook\<close>); or a saved workbook in which the sheets
  listed are followed by one more, of the name given, whose writing an exception cut short
  (\<open>Interrupted\<close>; which of its cells were written is not followed).
\<close>

datatype xlsx = Unsaved | Workbook "sheet list" | Interrupted "sheet list" string

text \<open>
  pandas picks the engine that writes \<^verbatim>\<open>.xlsx\<close>: xlsxwriter when that package is installed,
  openpyxl otherwise. The script imports and, if need be, installs openpyxl only.
\<close>

datatype engine = Openpyxl | Xlsxwriter

record world =
  dir_present :: bool
  nuget_file :: "json_doc option"
  rush_file :: "csv_doc option"
  report_file :: "xlsx option"
  engine :: engine
  console :: "string list"

text \<open>
  \<open>dir_present\<close>: \<^verbatim>\<open>./license-reports\<close> is a directory. The three files live in it: when it
  is missing, none of them can be opened, whatever the fields say.
\<close>

definition output_dir :: string where
  "output_dir = ''./license-reports''"

subsection \<open>Library calls\<close>

text \<open>
  Lines 17-18, \<^verbatim>\<open>open(f'{output_dir}/nuget-licenses.json', 'r')\<close> and \<^verbatim>\<open>json.load(f)\<close>.
\<close>

definition json_load :: "world \<Rightarrow> error + json" where
  "json_load w =
     (if dir_present w then
        (case nuget_file w of
           None \<Rightarrow> Inl FileNotFoundError
         | Some NotJson \<Rightarrow> Inl JSONDecodeError
         | Some (JsonDoc j) \<Rightarrow> Inr j)
      else Inl FileNotFoundError)"

text \<open>Line 23, \<^verbatim>\<open>pd.read_csv(f'{output_dir}/rush-dependencies.csv')\<close>.\<close>

definition read_csv :: "world \<Rightarrow> error + dataframe" where
  "read_csv w =
     (if dir_present w then
        (case rush_file w of
           None \<Rightarrow> Inl FileNotFoundError
         | Some NotCsv \<Rightarrow> Inl ParserError
         | Some (CsvDoc hdr lines) \<Rightarrow>
             (if hdr = [] then Inl EmptyDataError
              else Inr \<lparr>columns = hdr, rows = lines\<rparr>))
      else Inl FileNotFoundError)"

text \<open>
  Modelled from the spec: \<^verbatim>\<open>pandas.json_normalize\<close>, called on line 29, is library code
  and not part of the repository. Section 4.1, step 3 of the specification describes it:
  a flat tabular projection, one row per record, nested keys become dotted column names.

  \<open>flatten name v\<close> lists the columns that the value \<open>v\<close>, found under the column name
  \<open>name\<close>, contributes: a nested record contributes those of its members, each under
  \<open>name.key\<close>; any other value is the cell of column \<open>name\<close>.
\<close>

fun flatten :: "string \<Rightarrow> json \<Rightarrow> (string \<times> json) list" where
  "flatten name (JObj kvs) = concat (map (\<lambda>(k, v). flatten (name @ ''.'' @ k) v) kvs)"
| "flatten name v = [(name, v)]"

text \<open>
  Modelled from the spec: the flat projection of one record (section 4.1, step 3; part of
  \<^verbatim>\<open>json_normalize\<close>). A record's plain members keep their keys and come first; the
  members that are records themselves follow, flattened.
\<close>

definition flatten_record :: "(string \<times> json) list \<Rightarrow> (string \<times> json) list" where
  "flatten_record kvs =
     filter (\<lambda>(k, v). \<not> is_record v) kvs @
     concat (map (\<lambda>(k, v). flatten k v) (filter (\<lambda>(k, v). is_record v) kvs))"

text \<open>
  Modelled from the spec: the table of a list of flat records, one row per record (section
  4.1, step 3; part of \<^verbatim>\<open>json_normalize\<close>). The columns are the keys in order of first
  appearance, and a record has \<^verbatim>\<open>NaN\<close> where it lacks a key. A key written twice holds
  the value written last.
\<close>

definition first_seen :: "'a list \<Rightarrow> 'a list" where
  "first_seen xs = rev (remdups (rev xs))"

definition lookup_last :: "(string \<times> json) list \<Rightarrow> string \<Rightarrow> cell" where
  "lookup_last items c = map_of (rev items) c"

definition frame_of_records :: "(string \<times> json) list list \<Rightarrow> dataframe" where
  "frame_of_records recs =
     (let cols = first_seen (concat (map (map fst) recs))
      in \<lparr>columns = cols, rows = map (\<lambda>r. map (lookup_last r) cols) recs\<rparr>)"

text \<open>
  Modelled from the spec: \<^verbatim>\<open>pandas.json_normalize\<close> (library code, not part of the
  repository) on a list of records gives the flat table of section 4.1, step 3. Of the
  library's treatment of other values the model keeps this: the empty list gives the
  empty frame, a single dict is treated as a list of one record, an element of the list
  that is neither a dict nor a list counts as a record without members (a row without
  values), and a value that is neither a list nor a dict is refused with
  \<^verbatim>\<open>NotImplementedError\<close>. A list with an element that is itself a list is outside this
  development.
\<close>

fun json_normalize :: "json \<Rightarrow> error + dataframe" where
  "json_normalize (JArr []) = Inr DataFrame"
| "json_normalize (JObj kvs) = Inr (frame_of_records [flatten_record kvs])"
| "json_normalize (JArr rs) =
     (if list_ex is_array rs
      then Inl Unmodelled
      else Inr (frame_of_records (map (\<lambda>r. flatten_record (members r)) rs)))"
| "json_normalize v = Inl NotImplementedError"

text \<open>
  The writer, between its opening and its closing: the sheets written so far, and the name
  of the sheet whose writing an exception cut short, if any.
\<close>

record writer =
  book :: "sheet list"
  unfinished :: "string option"

definition new_writer :: writer where
  "new_writer = \<lparr>book = [], unfinished = None\<rparr>"

text \<open>
  What \<^verbatim>\<open>to_excel\<close> refuses. A sheet holds at most \<open>2\<^sup>2\<^sup>0\<close> rows and \<open>2\<^sup>1\<^sup>4\<close> columns, and
  pandas checks the shape of the frame against these bounds before it writes anything.
  openpyxl refuses a text with one of the control characters 0-8, 11, 12, 14-31, in a
  column name as in a cell; a value that is not text is written as a number, a boolean or
  its printed form, which has no such character. xlsxwriter escapes these characters.
\<close>

definition too_large :: "dataframe \<Rightarrow> bool" where
  "too_large df = (1048576 < length (rows df) \<or> 16384 < length (columns df))"

definition illegal_char :: "char \<Rightarrow> bool" where
  "illegal_char c =
     (let n = (of_char c :: nat) in n \<le> 8 \<or> n = 11 \<or> n = 12 \<or> (14 \<le> n \<and> n \<le> 31))"

definition illegal_text :: "string \<Rightarrow> bool" where
  "illegal_text s = list_ex illegal_char s"

fun illegal_cell :: "cell \<Rightarrow> bool" where
  "illegal_cell (Some (JStr s)) = illegal_text s"
| "illegal_cell c = False"

definition illegal_frame :: "dataframe \<Rightarrow> bool" where
  "illegal_frame df =
     (list_ex illegal_text (columns df) \<or> list_ex (list_ex illegal_cell) (rows df))"

text \<open>
  The sheet of a frame written with \<^verbatim>\<open>index=False\<close>: the column names, then one row of
  cells per row of the frame. A frame without columns has no cell to write, so its sheet
  has no row at all.
\<close>

definition table_sheet :: "string \<Rightarrow> dataframe \<Rightarrow> sheet" where
  "table_sheet name df =
     \<lparr>sheet_name = name, header = columns df,
      data_rows = (if columns df = [] then [] else rows df)\<rparr>"

text \<open>
  \<^verbatim>\<open>df.to_excel(writer, sheet_name=name, index=False)\<close>. The result is the exception raised,
  if any, and the writer afterwards. A frame too large is refused before the sheet is
  created; an illegal character is met while the cells of the new sheet are written, and
  leaves that sheet unfinished in the workbook.
\<close>

definition to_excel :: "engine \<Rightarrow> dataframe \<Rightarrow> string \<Rightarrow> writer \<Rightarrow> error option \<times> writer" where
  "to_excel e df name wr =
     (if too_large df then (Some SheetTooLarge, wr)
      else if e = Openpyxl \<and> illegal_frame df
      then (Some IllegalCharacterError, wr\<lparr>unfinished := Some name\<rparr>)
      else (None, wr\<lparr>book := book wr @ [table_sheet name df]\<rparr>))"

text \<open>
  \<^verbatim>\<open>pd.ExcelWriter(path)\<close> opens its target for writing when it is created; this fails when
  the directory is missing, and truncates the file otherwise. The workbook starts with no
  sheet (\<open>new_writer\<close>).
\<close>

definition ExcelWriter_open :: "world \<Rightarrow> error + world" where
  "ExcelWriter_open w =
     (if dir_present w then Inr (w\<lparr>report_file := Some Unsaved\<rparr>)
      else Inl NoSuchDirectory)"

text \<open>
  Leaving the \<^verbatim>\<open>with\<close> block calls the writer's \<^verbatim>\<open>close\<close>, which saves the workbook.
  What is saved when no sheet was written depends on the engine. pandas' openpyxl writer
  starts from a workbook whose initial sheet it has removed, and openpyxl refuses to save
  a workbook none of whose sheets is visible (\<^verbatim>\<open>IndexError: At least one sheet must be
  visible\<close>, here \<open>NoVisibleSheet\<close>); the file stays as the open left it. xlsxwriter adds
  a worksheet of its own, \<^verbatim>\<open>Sheet1\<close>, when none has been added. A workbook with an
  unfinished sheet is saved as it stands.
\<close>

definition default_sheet :: sheet where
  "default_sheet = \<lparr>sheet_name = ''Sheet1'', header = [], data_rows = []\<rparr>"

definition ExcelWriter_close :: "world \<Rightarrow> writer \<Rightarrow> error + world" where
  "ExcelWriter_close w wr =
     (case unfinished wr of
        Some name \<Rightarrow> Inr (w\<lparr>report_file := Some (Interrupted (book wr) name)\<rparr>)
      | None \<Rightarrow>
          (case engine w of
             Openpyxl \<Rightarrow>
               (if book wr = [] then Inl NoVisibleSheet
                else Inr (w\<lparr>report_file := Some (Workbook (book wr))\<rparr>))
           | Xlsxwriter \<Rightarrow>
               Inr (w\<lparr>report_file :=
                      Some (Workbook (if book wr = [] then [default_sheet] else book wr))\<rparr>)))"

definition print :: "string \<Rightarrow> world \<Rightarrow> world" where
  "print s w = w\<lparr>console := console w @ [s]\<rparr>"

subsection \<open>The program\<close>

text \<open>
  Lines 16-20: \<^verbatim>\<open>try: ... json.load(f)  except FileNotFoundError: nuget_data = []\<close>.
\<close>

definition read_nuget :: "world \<Rightarrow> error + json" where
  "read_nuget w =
     (case json_load w of
        Inl FileNotFoundError \<Rightarrow> Inr (JArr [])
      | Inl e \<Rightarrow> Inl e
      | Inr nuget_data \<Rightarrow> Inr nuget_data)"

text \<open>
  Lines 22-25: \<^verbatim>\<open>try: rush_data = pd.read_csv(...)  except FileNotFoundError: rush_data = pd.DataFrame()\<close>.
\<close>

definition read_rush :: "world \<Rightarrow> error + dataframe" where
  "read_rush w =
     (case read_csv w of
        Inl FileNotFoundError \<Rightarrow> Inr DataFrame
      | Inl e \<Rightarrow> Inl e
      | Inr rush_data \<Rightarrow> Inr rush_data)"

text \<open>
  Lines 28-32, the body of the \<^verbatim>\<open>with\<close> block, run with the engine of the writer. It
  returns the exception that ended it, if any, and the writer as it stands then.
\<close>

definition write_sheets :: "engine \<Rightarrow> json \<Rightarrow> dataframe \<Rightarrow> error option \<times> writer" where
  "write_sheets e nuget_data rush_data =
     (case (if truthy nuget_data
            then (case json_normalize nuget_data of
                    Inl err \<Rightarrow> (Some err, new_writer)
                  | Inr nuget_df \<Rightarrow> to_excel e nuget_df ''NuGet Packages'' new_writer)
            else (None, new_writer)) of
        (Some err, wr) \<Rightarrow> (Some err, wr)
      | (None, wr) \<Rightarrow>
          (if \<not> df_empty rush_data
           then to_excel e rush_data ''Rush Dependencies'' wr
           else (None, wr)))"

definition report_message :: string where
  "report_message = ''Excel report generated at '' @ output_dir @ ''/license-report.xlsx''"

text \<open>
  Lines 27-34: the \<^verbatim>\<open>with pd.ExcelWriter(...) as writer:\<close> statement and the final
  \<^verbatim>\<open>print\<close>. The result is the uncaught exception that ended the run (\<open>None\<close>: the run
  completed, exit status 0) and the world it leaves. The \<^verbatim>\<open>with\<close> statement closes the
  writer also when its body raised; an exception of the close then replaces the one of
  the body.
\<close>

definition write_report :: "world \<Rightarrow> json \<Rightarrow> dataframe \<Rightarrow> error option \<times> world" where
  "write_report w nuget_data rush_data =
     (case ExcelWriter_open w of
        Inl e \<Rightarrow> (Some e, w)
      | Inr w1 \<Rightarrow>
     (case write_sheets (engine w1) nuget_data rush_data of
        (raised, wr) \<Rightarrow>
     (case ExcelWriter_close w1 wr of
        Inl e \<Rightarrow> (Some e, w1)
      | Inr w2 \<Rightarrow>
     (case raised of
        Some e \<Rightarrow> (Some e, w2)
      | None \<Rightarrow> (None, print report_message w2)))))"

text \<open>\<^verbatim>\<open>main\<close>, lines 13-34: the two reads, then the report.\<close>

definition main :: "world \<Rightarrow> error option \<times> world" where
  "main w =
     (case read_nuget w of
        Inl e \<Rightarrow> (Some e, w)
      | Inr nuget_data \<Rightarrow>
     (case read_rush w of
        Inl e \<Rightarrow> (Some e, w)
      | Inr rush_data \<Rightarrow> write_report w nuget_data rush_data))"

text \<open>What a run leaves: its exit, the report file, the console.\<close>

definition status :: "world \<Rightarrow> error option" where
  "status w = fst (main w)"

definition report :: "world \<Rightarrow> xlsx option" where
  "report w = report_file (snd (main w))"

definition printed :: "world \<Rightarrow> string list" where
  "printed w = console (snd (main w))"

subsection \<open>The workbook, in the words of the specification\<close>

text \<open>
  Section 3: the report workbook contains 0, 1 or 2 named sheets, \<^verbatim>\<open>NuGet Packages\<close> and
  \<^verbatim>\<open>Rush Dependencies\<close>, each populated only if its source data is non-empty; section 4.1,
  steps 1, 2, 5 and 6: an absent file is an empty dataset, and the NuGet sheet comes
  before the Rush sheet. \<open>report_sheets\<close> is this workbook, as a function of the two input
  files alone.
\<close>

definition nuget_records :: "json_doc option \<Rightarrow> json" where
  "nuget_records nf = (case nf of Some (JsonDoc j) \<Rightarrow> j | _ \<Rightarrow> JArr [])"

definition rush_table :: "csv_doc option \<Rightarrow> dataframe" where
  "rush_table rf =
     (case rf of Some (CsvDoc hdr lines) \<Rightarrow> \<lparr>columns = hdr, rows = lines\<rparr> | _ \<Rightarrow> DataFrame)"





subsection \<open>The flattening, in the words of the specification\<close>

text \<open>
  Section 4.1, step 3 speaks of nested keys that become dotted column names. A key path
  of a record leads from the record through nested records to a value that is not a
  record; \<open>leaves p v\<close> lists the key paths below \<open>v\<close>, each with the value it leads to,
  where \<open>p\<close> is the path that led to \<open>v\<close>. \<open>dotted\<close> joins the keys of a path with dots.
\<close>

fun leaves :: "string list \<Rightarrow> json \<Rightarrow> (string list \<times> json) list" where
  "leaves p (JObj kvs) = concat (map (\<lambda>(k, v). leaves (p @ [k]) v) kvs)"
| "leaves p v = [(p, v)]"

fun dotted :: "string list \<Rightarrow> string" where
  "dotted [] = []"
| "dotted [k] = k"
| "dotted (k # ks) = k @ ''.'' @ dotted ks"

definition named :: "string list \<times> json \<Rightarrow> string \<times> json" where
  "named = (\<lambda>(p, v). (dotted p, v))"

subsection \<open>Example runs\<close>

text \<open>
  The scenarios of section 8 of the specification, and a few more, each in a world with an
  existing directory, no earlier report, the openpyxl engine and an empty console unless
  said otherwise.
\<close>

definition fresh :: "json_doc option \<Rightarrow> csv_doc option \<Rightarrow> world" where
  "fresh nuget rush =
     \<lparr>dir_present = True, nuget_file = nuget, rush_file = rush,
      report_file = None, engine = Openpyxl, console = []\<rparr>"

definition one_package :: json where
  "one_package = JArr [JObj [(''name'', JStr ''A''), (''license'', JStr ''MIT'')]]"

definition one_dependency :: csv_doc where
  "one_dependency = CsvDoc [''name'', ''version''] [[Some (JStr ''foo''), Some (JStr ''1.0.0'')]]"

definition nuget_only :: world where
  "nuget_only = fresh (Some (JsonDoc one_package)) None"

definition rush_only :: world where
  "rush_only = fresh None (Some one_dependency)"

definition both_absent :: world where
  "both_absent = fresh None None"

definition both_blank :: world where
  "both_blank = fresh (Some (JsonDoc (JArr []))) (Some (CsvDoc [''name'', ''version''] []))"

definition both_given :: world where
  "both_given = fresh (Some (JsonDoc one_package)) (Some one_dependency)"

definition bad_json :: world where
  "bad_json = fresh (Some NotJson) (Some one_dependency)"

definition bad_csv :: world where
  "bad_csv = fresh None (Some NotCsv)"

definition no_directory :: world where
  "no_directory = (fresh None None)\<lparr>dir_present := False\<rparr>"

definition nested_package :: "json list" where
  "nested_package =
     [JObj [(''name'', JStr ''A''), (''license'', JObj [(''type'', JStr ''MIT''), (''url'', JNull)])],
      JObj [(''name'', JStr ''B''), (''version'', JInt 2)]]"

definition nested_object :: json where
  "nested_object = JObj [(''name'', JStr ''A''), (''license'', JObj [(''type'', JStr ''MIT'')])]"

definition object_given :: world where
  "object_given = fresh (Some (JsonDoc nested_object)) None"

definition scalar_given :: world where
  "scalar_given = fresh (Some (JsonDoc (JStr ''MIT''))) (Some one_dependency)"

definition package_bad_csv :: world where
  "package_bad_csv = fresh (Some (JsonDoc one_package)) (Some NotCsv)"

definition empty_record :: world where
  "empty_record = fresh (Some (JsonDoc (JArr [JObj []]))) None"

definition hollow_object :: world where
  "hollow_object = fresh (Some (JsonDoc (JObj [(''license'', JObj [])]))) None"

definition control_character :: world where
  "control_character =
     fresh (Some (JsonDoc (JArr [JObj [(''name'', JStr [CHR ''A'', CHR 0x01])]]))) None"

text \<open>The sheets of a body that ran to its end.\<close>

definition body_sheets :: "json \<Rightarrow> dataframe \<Rightarrow> sheet list" where
  "body_sheets nd rd =
     (if truthy nd
      then (case json_normalize nd of
              Inl e \<Rightarrow> []
            | Inr df \<Rightarrow> [table_sheet ''NuGet Packages'' df])
      else []) @
     (if df_empty rd then [] else [table_sheet ''Rush Dependencies'' rd])"


section \<open>Properties\<close>

lemmas run_defs =
  main_def write_report_def read_nuget_def read_rush_def json_load_def read_csv_def
  ExcelWriter_open_def ExcelWriter_close_def write_sheets_def df_empty_def DataFrame_def
  to_excel_def table_sheet_def new_writer_def too_large_def illegal_frame_def
  illegal_text_def illegal_char_def is_array_def print_def status_def report_def printed_def

lemmas table_defs =
  frame_of_records_def flatten_record_def first_seen_def lookup_last_def

lemmas example_defs =
  fresh_def one_package_def one_dependency_def nuget_only_def rush_only_def both_absent_def
  both_blank_def both_given_def bad_json_def bad_csv_def no_directory_def
  nested_object_def object_given_def scalar_given_def package_bad_csv_def empty_record_def
  hollow_object_def control_character_def

subsection \<open>The two reads\<close>

lemma read_nuget_doc: "dir_present w \<Longrightarrow> nuget_file w = Some (JsonDoc j) \<Longrightarrow> read_nuget w = Inr j"
  by (simp add: read_nuget_def json_load_def)

lemma read_nuget_bad: "dir_present w \<Longrightarrow> nuget_file w = Some NotJson \<Longrightarrow> read_nuget w = Inl JSONDecodeError"
  by (simp add: read_nuget_def json_load_def)

lemma read_nuget_absent: "nuget_file w = None \<Longrightarrow> read_nuget w = Inr (JArr [])"
  by (simp add: read_nuget_def json_load_def)

lemma read_rush_doc:
  "dir_present w \<Longrightarrow> rush_file w = Some (CsvDoc hdr lines) \<Longrightarrow> hdr \<noteq> [] \<Longrightarrow>
   read_rush w = Inr \<lparr>columns = hdr, rows = lines\<rparr>"
  by (simp add: read_rush_def read_csv_def)

lemma read_nuget_no_dir: "\<not> dir_present w \<Longrightarrow> read_nuget w = Inr (JArr [])"
  by (simp add: read_nuget_def json_load_def)

lemma read_rush_no_header:
  "dir_present w \<Longrightarrow> rush_file w = Some (CsvDoc [] lines) \<Longrightarrow> read_rush w = Inl EmptyDataError"
  by (simp add: read_rush_def read_csv_def)

lemma read_rush_bad: "dir_present w \<Longrightarrow> rush_file w = Some NotCsv \<Longrightarrow> read_rush w = Inl ParserError"
  by (simp add: read_rush_def read_csv_def)

lemma read_rush_absent: "rush_file w = None \<Longrightarrow> read_rush w = Inr DataFrame"
  by (simp add: read_rush_def read_csv_def)

lemma read_rush_no_dir: "\<not> dir_present w \<Longrightarrow> read_rush w = Inr DataFrame"
  by (simp add: read_rush_def read_csv_def)

lemma read_nuget_nothing:
  assumes "nuget_file w = None \<or> nuget_file w = Some (JsonDoc (JArr []))"
  shows "read_nuget w = Inr (JArr [])"
proof (cases "dir_present w")
  case False
  then show ?thesis by (rule read_nuget_no_dir)
next
  case True
  with assms read_nuget_absent [of w] read_nuget_doc [of w "JArr []"] show ?thesis by blast
qed

lemma read_rush_nothing:
  assumes "rush_file w = None \<or> rush_file w = Some (CsvDoc hdr [])" and "read_rush w = Inr rd"
  shows "df_empty rd"
proof (cases "dir_present w")
  case False
  from read_rush_no_dir [OF this] assms(2) show ?thesis
    by (simp add: df_empty_def DataFrame_def)
next
  case d: True
  show ?thesis
  proof (cases "rush_file w")
    case None
    from read_rush_absent [OF this] assms(2) show ?thesis
      by (simp add: df_empty_def DataFrame_def)
  next
    case (Some doc)
    with assms(1) have f: "rush_file w = Some (CsvDoc hdr [])" by simp
    show ?thesis
    proof (cases "hdr = []")
      case True
      with f read_rush_no_header [OF d, of "[]"] assms(2) show ?thesis by simp
    next
      case False
      from read_rush_doc [OF d f False] assms(2) show ?thesis by (simp add: df_empty_def)
    qed
  qed
qed





subsection \<open>Writing the sheets\<close>

lemma table_sheet_simps [simp]:
  "sheet_name (table_sheet name df) = name"
  "header (table_sheet name df) = columns df"
  "data_rows (table_sheet name df) = (if columns df = [] then [] else rows df)"
  by (simp_all add: table_sheet_def)

lemma to_excel_done:
  "to_excel e df name wr = (None, wr') \<Longrightarrow> wr' = wr\<lparr>book := book wr @ [table_sheet name df]\<rparr>"
  by (simp add: to_excel_def split: if_splits)

lemma to_excel_raised:
  "to_excel e df name wr = (Some err, wr') \<Longrightarrow>
   book wr' = book wr \<and> (unfinished wr' = unfinished wr \<or> unfinished wr' = Some name)"
  by (auto simp: to_excel_def split: if_splits)

lemma to_excel_writes:
  "\<not> too_large df \<Longrightarrow> e = Xlsxwriter \<or> \<not> illegal_frame df \<Longrightarrow>
   to_excel e df name wr = (None, wr\<lparr>book := book wr @ [table_sheet name df]\<rparr>)"
  by (auto simp: to_excel_def)

lemma write_sheets_falsy:
  "\<not> truthy nd \<Longrightarrow>
   write_sheets e nd rd =
     (if df_empty rd then (None, new_writer)
      else to_excel e rd ''Rush Dependencies'' new_writer)"
  by (simp add: write_sheets_def)

lemma write_sheets_refused:
  "truthy nd \<Longrightarrow> json_normalize nd = Inl err \<Longrightarrow> write_sheets e nd rd = (Some err, new_writer)"
  by (simp add: write_sheets_def)

lemma write_sheets_truthy:
  "truthy nd \<Longrightarrow> json_normalize nd = Inr df \<Longrightarrow>
   write_sheets e nd rd =
     (case to_excel e df ''NuGet Packages'' new_writer of
        (Some err, wr) \<Rightarrow> (Some err, wr)
      | (None, wr) \<Rightarrow>
          (if \<not> df_empty rd then to_excel e rd ''Rush Dependencies'' wr else (None, wr)))"
  by (simp add: write_sheets_def)

lemma write_sheets_completed:
  assumes "write_sheets e nd rd = (None, wr)"
  shows "wr = \<lparr>book = body_sheets nd rd, unfinished = None\<rparr>"
    and "truthy nd \<Longrightarrow> \<exists>df. json_normalize nd = Inr df"
proof -
  have "wr = \<lparr>book = body_sheets nd rd, unfinished = None\<rparr> \<and>
        (truthy nd \<longrightarrow> (\<exists>df. json_normalize nd = Inr df))"
  proof (cases "truthy nd")
    case False
    show ?thesis
    proof (cases "df_empty rd")
      case True
      with False assms show ?thesis
        by (simp add: write_sheets_falsy body_sheets_def new_writer_def)
    next
      case ne: False
      with False assms have "to_excel e rd ''Rush Dependencies'' new_writer = (None, wr)"
        by (simp add: write_sheets_falsy)
      from to_excel_done [OF this] False ne show ?thesis
        by (simp add: body_sheets_def new_writer_def)
    qed
  next
    case True
    show ?thesis
    proof (cases "json_normalize nd")
      case (Inl err)
      with True assms show ?thesis by (simp add: write_sheets_refused)
    next
      case (Inr df)
      obtain r1 wr1 where t1: "to_excel e df ''NuGet Packages'' new_writer = (r1, wr1)"
        by (cases "to_excel e df ''NuGet Packages'' new_writer")
      have r1: "r1 = None"
      proof (cases r1)
        case (Some err)
        with True Inr t1 assms show ?thesis by (simp add: write_sheets_truthy)
      qed simp
      from to_excel_done [of e df "''NuGet Packages''" new_writer wr1] t1 r1
      have wr1: "wr1 = \<lparr>book = [table_sheet ''NuGet Packages'' df], unfinished = None\<rparr>"
        by (simp add: new_writer_def)
      show ?thesis
      proof (cases "df_empty rd")
        case e: True
        with True Inr t1 r1 assms have "wr = wr1" by (simp add: write_sheets_truthy)
        with wr1 True Inr e show ?thesis by (simp add: body_sheets_def)
      next
        case ne: False
        with True Inr t1 r1 assms have "to_excel e rd ''Rush Dependencies'' wr1 = (None, wr)"
          by (simp add: write_sheets_truthy)
        from to_excel_done [OF this] wr1 True Inr ne show ?thesis
          by (simp add: body_sheets_def)
      qed
    qed
  qed
  then show "wr = \<lparr>book = body_sheets nd rd, unfinished = None\<rparr>"
    and "truthy nd \<Longrightarrow> \<exists>df. json_normalize nd = Inr df"
    by blast+
qed

lemma write_sheets_writes:
  assumes "truthy nd \<longrightarrow> (\<exists>df. json_normalize nd = Inr df \<and> \<not> too_large df \<and>
             (e = Xlsxwriter \<or> \<not> illegal_frame df))"
    and "df_empty rd \<or> (\<not> too_large rd \<and> (e = Xlsxwriter \<or> \<not> illegal_frame rd))"
  shows "write_sheets e nd rd = (None, \<lparr>book = body_sheets nd rd, unfinished = None\<rparr>)"
proof (cases "truthy nd")
  case False
  show ?thesis
  proof (cases "df_empty rd")
    case True
    with False show ?thesis
      by (simp add: write_sheets_falsy body_sheets_def new_writer_def)
  next
    case ne: False
    with assms(2) have "\<not> too_large rd" "e = Xlsxwriter \<or> \<not> illegal_frame rd" by simp_all
    from to_excel_writes [OF this] False ne show ?thesis
      by (simp add: write_sheets_falsy body_sheets_def new_writer_def)
  qed
next
  case True
  with assms(1) obtain df :: dataframe where jn: "json_normalize nd = Inr df"
    and ok: "\<not> too_large df" "e = Xlsxwriter \<or> \<not> illegal_frame df"
    by blast
  have t1: "to_excel e df ''NuGet Packages'' new_writer =
      (None, \<lparr>book = [table_sheet ''NuGet Packages'' df], unfinished = None\<rparr>)"
    using to_excel_writes [OF ok, of "''NuGet Packages''" new_writer] by (simp add: new_writer_def)
  show ?thesis
  proof (cases "df_empty rd")
    case e: True
    with True jn t1 show ?thesis
      by (simp add: write_sheets_truthy body_sheets_def)
  next
    case ne: False
    with assms(2) have "\<not> too_large rd" "e = Xlsxwriter \<or> \<not> illegal_frame rd" by simp_all
    from to_excel_writes [OF this] True jn t1 ne show ?thesis
      by (simp add: write_sheets_truthy body_sheets_def)
  qed
qed



subsection \<open>The report\<close>

lemma write_report_no_dir: "\<not> dir_present w \<Longrightarrow> write_report w nd rd = (Some NoSuchDirectory, w)"
  by (simp add: write_report_def ExcelWriter_open_def)

lemma write_report_done:
  "dir_present w \<Longrightarrow> write_sheets (engine w) nd rd = (None, wr) \<Longrightarrow> book wr \<noteq> [] \<Longrightarrow>
   write_report w nd rd =
     (None, w\<lparr>report_file := Some (Workbook (book wr)),
               console := console w @ [report_message]\<rparr>)"
  using write_sheets_completed(1) [of "engine w" nd rd wr]
  by (cases "engine w")
     (simp_all add: write_report_def ExcelWriter_open_def ExcelWriter_close_def print_def)

lemma write_report_nothing_openpyxl:
  "dir_present w \<Longrightarrow> snd (write_sheets (engine w) nd rd) = new_writer \<Longrightarrow> engine w = Openpyxl \<Longrightarrow>
   write_report w nd rd = (Some NoVisibleSheet, w\<lparr>report_file := Some Unsaved\<rparr>)"
  by (cases "write_sheets Openpyxl nd rd")
     (simp add: write_report_def ExcelWriter_open_def ExcelWriter_close_def new_writer_def)

lemma write_report_nothing_xlsxwriter:
  "dir_present w \<Longrightarrow> write_sheets (engine w) nd rd = (None, new_writer) \<Longrightarrow>
   engine w = Xlsxwriter \<Longrightarrow>
   write_report w nd rd =
     (None, w\<lparr>report_file := Some (Workbook [default_sheet]),
               console := console w @ [report_message]\<rparr>)"
  by (simp add: write_report_def ExcelWriter_open_def ExcelWriter_close_def print_def
      new_writer_def)

lemma write_report_raised:
  "write_sheets (engine w) nd rd = (Some e, wr) \<Longrightarrow> fst (write_report w nd rd) \<noteq> None"
  by (cases "engine w"; cases "dir_present w"; cases "unfinished wr")
     (simp_all add: write_report_def ExcelWriter_open_def ExcelWriter_close_def)




text \<open>A completed run, taken apart.\<close>

lemma write_report_completed:
  assumes "fst (write_report w nd rd) = None"
  shows "dir_present w \<and> (body_sheets nd rd = [] \<longrightarrow> engine w = Xlsxwriter) \<and>
         write_sheets (engine w) nd rd = (None, \<lparr>book = body_sheets nd rd, unfinished = None\<rparr>) \<and>
         snd (write_report w nd rd) =
           w\<lparr>report_file := Some (Workbook
                (if body_sheets nd rd = [] then [default_sheet] else body_sheets nd rd)),
             console := console w @ [report_message]\<rparr>"
proof -
  have d: "dir_present w"
  proof (rule ccontr)
    assume "\<not> dir_present w"
    from write_report_no_dir [OF this, of nd rd] assms show False by simp
  qed
  obtain raised wr where ws: "write_sheets (engine w) nd rd = (raised, wr)"
    by (cases "write_sheets (engine w) nd rd")
  have r: "raised = None"
  proof (cases raised)
    case None
    then show ?thesis .
  next
    case (Some e)
    with ws write_report_raised [of w nd rd e wr] assms show ?thesis by simp
  qed
  have ws': "write_sheets (engine w) nd rd = (None, wr)" using ws r by simp
  have wr: "wr = \<lparr>book = body_sheets nd rd, unfinished = None\<rparr>"
    using ws' by (rule write_sheets_completed(1))
  show ?thesis
  proof (cases "body_sheets nd rd = []")
    case True
    then have nw: "wr = new_writer" using wr by (simp add: new_writer_def)
    show ?thesis
    proof (cases "engine w")
      case Openpyxl
      have "snd (write_sheets (engine w) nd rd) = new_writer" using ws' nw by simp
      from write_report_nothing_openpyxl [OF d this Openpyxl] assms show ?thesis by simp
    next
      case Xlsxwriter
      have "write_sheets (engine w) nd rd = (None, new_writer)" using ws' nw by simp
      from write_report_nothing_xlsxwriter [OF d this Xlsxwriter] d ws' wr True Xlsxwriter
      show ?thesis by simp
    qed
  next
    case False
    then have "book wr \<noteq> []" using wr by simp
    from write_report_done [OF d ws' this] d ws' wr False show ?thesis by simp
  qed
qed

lemma completed_run:
  assumes "status w = None"
  shows "dir_present w \<and> (\<exists>nd rd. read_nuget w = Inr nd \<and> read_rush w = Inr rd \<and>
           write_sheets (engine w) nd rd =
             (None, \<lparr>book = body_sheets nd rd, unfinished = None\<rparr>) \<and>
           (body_sheets nd rd = [] \<longrightarrow> engine w = Xlsxwriter) \<and>
           report w = Some (Workbook
             (if body_sheets nd rd = [] then [default_sheet] else body_sheets nd rd)) \<and>
           printed w = console w @ [report_message])"
proof -
  obtain nd where nd: "read_nuget w = Inr nd"
    using assms by (cases "read_nuget w") (simp_all add: status_def main_def)
  obtain rd where rd: "read_rush w = Inr rd"
    using assms nd by (cases "read_rush w") (simp_all add: status_def main_def)
  have m: "main w = write_report w nd rd"
    by (simp add: main_def nd rd)
  then have "fst (write_report w nd rd) = None"
    using assms by (simp add: status_def)
  from write_report_completed [OF this] have
    d: "dir_present w" and e: "body_sheets nd rd = [] \<longrightarrow> engine w = Xlsxwriter" and
    ws: "write_sheets (engine w) nd rd = (None, \<lparr>book = body_sheets nd rd, unfinished = None\<rparr>)" and
    s: "snd (write_report w nd rd) =
          w\<lparr>report_file := Some (Workbook
               (if body_sheets nd rd = [] then [default_sheet] else body_sheets nd rd)),
            console := console w @ [report_message]\<rparr>"
    by blast+
  have "report w = Some (Workbook
      (if body_sheets nd rd = [] then [default_sheet] else body_sheets nd rd))"
    by (simp add: report_def m s)
  moreover have "printed w = console w @ [report_message]"
    by (simp add: printed_def m s)
  ultimately show ?thesis
    using d nd rd ws e by blast
qed


text \<open>When a run completes.\<close>

lemma run_completes_iff:
  "status w = None \<longleftrightarrow>
     dir_present w \<and>
     (\<exists>nd rd wr. read_nuget w = Inr nd \<and> read_rush w = Inr rd \<and>
        write_sheets (engine w) nd rd = (None, wr) \<and> (book wr = [] \<longrightarrow> engine w = Xlsxwriter))"
proof
  assume "status w = None"
  from completed_run [OF this] obtain nd rd where
    "dir_present w" "read_nuget w = Inr nd" "read_rush w = Inr rd"
    "write_sheets (engine w) nd rd = (None, \<lparr>book = body_sheets nd rd, unfinished = None\<rparr>)"
    "body_sheets nd rd = [] \<longrightarrow> engine w = Xlsxwriter"
    by blast
  then show "dir_present w \<and>
     (\<exists>nd rd wr. read_nuget w = Inr nd \<and> read_rush w = Inr rd \<and>
        write_sheets (engine w) nd rd = (None, wr) \<and> (book wr = [] \<longrightarrow> engine w = Xlsxwriter))"
    by (intro conjI exI [of _ nd] exI [of _ rd]
          exI [of _ "\<lparr>book = body_sheets nd rd, unfinished = None\<rparr>"]) simp_all
next
  assume "dir_present w \<and>
     (\<exists>nd rd wr. read_nuget w = Inr nd \<and> read_rush w = Inr rd \<and>
        write_sheets (engine w) nd rd = (None, wr) \<and> (book wr = [] \<longrightarrow> engine w = Xlsxwriter))"
  then obtain nd rd wr where d: "dir_present w"
    and nd: "read_nuget w = Inr nd" and rd: "read_rush w = Inr rd"
    and ws: "write_sheets (engine w) nd rd = (None, wr)"
    and e: "book wr = [] \<longrightarrow> engine w = Xlsxwriter"
    by blast
  have wr: "wr = \<lparr>book = body_sheets nd rd, unfinished = None\<rparr>"
    using ws by (rule write_sheets_completed(1))
  have "fst (write_report w nd rd) = None"
  proof (cases "book wr = []")
    case True
    then have "wr = new_writer" using wr by (simp add: new_writer_def)
    with e True ws write_report_nothing_xlsxwriter [OF d, of nd rd] show ?thesis by simp
  next
    case False
    from write_report_done [OF d ws False] show ?thesis by simp
  qed
  then show "status w = None"
    by (simp add: status_def main_def nd rd)
qed


subsection \<open>The flat table\<close>

lemma frame_rows: "length (rows (frame_of_records recs)) = length recs"
  by (simp add: frame_of_records_def Let_def)

lemma record_not_array: "is_record r \<Longrightarrow> \<not> is_array r"
  by (cases r) (simp_all add: is_array_def)

lemma json_normalize_records:
  "rs \<noteq> [] \<Longrightarrow> list_all is_record rs \<Longrightarrow>
   json_normalize (JArr rs) = Inr (frame_of_records (map (\<lambda>r. flatten_record (members r)) rs))"
  by (cases rs) (auto simp: list_all_iff list_ex_iff record_not_array)


lemma dotted_snoc: "p \<noteq> [] \<Longrightarrow> dotted (p @ [k]) = dotted p @ ''.'' @ k"
  by (induction p rule: dotted.induct) simp_all

lemma flatten_leaves:
  "p \<noteq> [] \<Longrightarrow> flatten (dotted p) v = map named (leaves p v)"
proof (induction p v rule: leaves.induct)
  case (1 p kvs)
  have step: "\<And>k v. (k, v) \<in> set kvs \<Longrightarrow>
          flatten (dotted p @ ''.'' @ k) v = map named (leaves (p @ [k]) v)"
    using 1 by (simp add: dotted_snoc)
  have eq: "map (\<lambda>(k, v). flatten (dotted p @ ''.'' @ k) v) kvs =
            map (\<lambda>(k, v). map named (leaves (p @ [k]) v)) kvs"
    by (rule map_cong [OF refl]) (use step in auto)
  have "flatten (dotted p) (JObj kvs) =
        concat (map (\<lambda>(k, v). flatten (dotted p @ ''.'' @ k) v) kvs)"
    by simp
  also have "\<dots> = concat (map (\<lambda>(k, v). map named (leaves (p @ [k]) v)) kvs)"
    by (simp only: eq)
  also have "\<dots> = map named (leaves p (JObj kvs))"
    by (simp add: map_concat comp_def case_prod_unfold)
  finally show ?case .
qed (simp_all add: named_def)

lemma member_columns:
  "set (if is_record v then flatten k v else [(k, v)]) = named ` set (leaves [k] v)"
proof (cases "is_record v")
  case True
  then show ?thesis using flatten_leaves [of "[k]" v] by simp
next
  case False
  then show ?thesis by (cases v) (simp_all add: named_def)
qed

lemma set_flatten_record:
  "set (flatten_record kvs) = named ` set (leaves [] (JObj kvs))"
proof -
  have "set (flatten_record kvs) =
        (\<Union>(k, v) \<in> set kvs. set (if is_record v then flatten k v else [(k, v)]))"
    by (auto simp: flatten_record_def split: if_splits)
  also have "\<dots> = (\<Union>(k, v) \<in> set kvs. named ` set (leaves [k] v))"
    by (simp add: member_columns)
  also have "\<dots> = named ` set (leaves [] (JObj kvs))"
    by auto
  finally show ?thesis .
qed

lemma frame_columns:
  "set (columns (frame_of_records recs)) = (\<Union>r \<in> set recs. fst ` set r)"
  "distinct (columns (frame_of_records recs))"
  by (simp_all add: frame_of_records_def Let_def first_seen_def)

lemma frame_width:
  "row \<in> set (rows (frame_of_records recs)) \<Longrightarrow> length row = length (columns (frame_of_records recs))"
  by (auto simp: frame_of_records_def Let_def)

lemma frame_cell:
  assumes "i < length recs" "c \<in> set (columns (frame_of_records recs))"
  shows "map_of (zip (columns (frame_of_records recs)) (rows (frame_of_records recs) ! i)) c
         = Some (lookup_last (recs ! i) c)"
  using assms by (simp add: frame_of_records_def Let_def map_of_zip_map)

lemma lookup_last_unique:
  assumes "(k, v) \<in> set items" "\<And>v'. (k, v') \<in> set items \<Longrightarrow> v' = v"
  shows "lookup_last items k = Some v"
proof (cases "map_of (rev items) k")
  case None
  then have "k \<notin> fst ` set (rev items)" by (simp add: map_of_eq_None_iff)
  with assms(1) show ?thesis by force
next
  case (Some y)
  then have "(k, y) \<in> set (rev items)" by (rule map_of_SomeD)
  with assms(2) Some show ?thesis by (simp add: lookup_last_def)
qed

lemma record_columns:
  assumes "is_record r"
  shows "set (flatten_record (members r)) = named ` set (leaves [] r)"
  using assms set_flatten_record [of "members r"] by (cases r) simp_all

lemma fst_named: "fst (named x) = dotted (fst x)"
  by (simp add: named_def case_prod_unfold)




subsection \<open>What \<open>to_excel\<close> refuses\<close>

text \<open>
  A record whose name holds the control character 1: under openpyxl the run ends in the
  exception of \<^verbatim>\<open>to_excel\<close>, with the sheet it had begun saved unfinished and nothing
  printed; under xlsxwriter the run completes.
\<close>

lemma control_character_run:
  "main control_character =
     (Some IllegalCharacterError,
      control_character\<lparr>report_file := Some (Interrupted [] ''NuGet Packages'')\<rparr>)"
  "status (control_character\<lparr>engine := Xlsxwriter\<rparr>) = None"
  by (simp_all add: run_defs table_defs example_defs)

subsection \<open>No sheet to write\<close>

text \<open>
  With both inputs absent or empty, the body of the \<^verbatim>\<open>with\<close> block writes nothing, and the
  run ends as the engine ends the saving of an empty workbook.
\<close>

lemma empty_workbook_saved:
  assumes d: "dir_present w"
    and n: "nuget_file w = None \<or> nuget_file w = Some (JsonDoc (JArr []))"
    and r: "rush_file w = None \<or> rush_file w = Some (CsvDoc hdr [])"
    and h: "hdr \<noteq> []"
  shows "engine w = Openpyxl \<Longrightarrow>
           main w = (Some NoVisibleSheet, w\<lparr>report_file := Some Unsaved\<rparr>)"
    and "engine w = Xlsxwriter \<Longrightarrow>
           main w = (None, w\<lparr>report_file := Some (Workbook [default_sheet]),
                            console := console w @ [report_message]\<rparr>)"
proof -
  have nd: "read_nuget w = Inr (JArr [])"
    using n by (rule read_nuget_nothing)
  obtain rd where rd: "read_rush w = Inr rd"
    using r d h read_rush_absent [of w] read_rush_doc [of w hdr "[]"] by blast
  have "df_empty rd"
    using r rd by (rule read_rush_nothing)
  then have ws: "write_sheets (engine w) (JArr []) rd = (None, new_writer)"
    by (simp add: write_sheets_falsy)
  have m: "main w = write_report w (JArr []) rd"
    by (simp add: main_def nd rd)
  show "engine w = Openpyxl \<Longrightarrow>
           main w = (Some NoVisibleSheet, w\<lparr>report_file := Some Unsaved\<rparr>)"
    using write_report_nothing_openpyxl [OF d, of "JArr []" rd] ws m by simp
  show "engine w = Xlsxwriter \<Longrightarrow>
           main w = (None, w\<lparr>report_file := Some (Workbook [default_sheet]),
                            console := console w @ [report_message]\<rparr>)"
    using write_report_nothing_xlsxwriter [OF d ws] m by simp
qed

text \<open>
  Claim C1. When both input files are absent, or both are present and empty (the empty
  JSON array, a CSV file with its header only), the run is said to write a workbook with
  zero sheets, to exit with status 0 and to print the confirmation message.

  The program does not do so. Nothing is handed to the writer, and what happens next is
  the engine's business: openpyxl, the engine the script provides for, refuses to save a
  workbook without a sheet, so the run ends in that exception, leaves the report file
  opened and unsaved, and prints nothing. Under xlsxwriter the run completes, and the
  workbook holds one sheet, the engine's default.
\<close>

theorem nothing_to_write_run:
  "main both_absent = (Some NoVisibleSheet, both_absent\<lparr>report_file := Some Unsaved\<rparr>)
   \<and> main both_blank = (Some NoVisibleSheet, both_blank\<lparr>report_file := Some Unsaved\<rparr>)
   \<and> main (both_absent\<lparr>engine := Xlsxwriter\<rparr>) =
       (None, both_absent\<lparr>engine := Xlsxwriter,
                report_file := Some (Workbook [default_sheet]),
                console := [report_message]\<rparr>)"
  by (simp add: run_defs example_defs)

subsection \<open>The two sheets\<close>

lemma nuget_records_simps [simp]:
  "nuget_records None = JArr []"
  "nuget_records (Some NotJson) = JArr []"
  "nuget_records (Some (JsonDoc j)) = j"
  by (simp_all add: nuget_records_def)

lemma rush_table_simps [simp]:
  "rush_table None = DataFrame"
  "rush_table (Some NotCsv) = DataFrame"
  "rush_table (Some (CsvDoc hdr lines)) = \<lparr>columns = hdr, rows = lines\<rparr>"
  by (simp_all add: rush_table_def)













subsection \<open>Failures\<close>

text \<open>
  Claim C5. A present input file that its parser rejects ends the run: the exception is
  not caught, no workbook is opened or written, and nothing is printed (the world is left
  as it was). For the JSON file the exception is the decoder's; for the CSV file it is
  the parser's, unless the JSON file was rejected first.
\<close>

theorem malformed_input_fatal:
  "(dir_present w \<and> nuget_file w = Some NotJson \<longrightarrow> main w = (Some JSONDecodeError, w))
   \<and> (dir_present w \<and> (rush_file w = Some NotCsv \<or> rush_file w = Some (CsvDoc [] lines)) \<longrightarrow>
        (\<exists>e. main w = (Some e, w) \<and> e \<in> {JSONDecodeError, ParserError, EmptyDataError}))"
proof (intro conjI impI)
  assume "dir_present w \<and> nuget_file w = Some NotJson"
  then show "main w = (Some JSONDecodeError, w)"
    by (simp add: main_def read_nuget_bad)
next
  assume a: "dir_present w \<and> (rush_file w = Some NotCsv \<or> rush_file w = Some (CsvDoc [] lines))"
  then have r: "read_rush w = Inl ParserError \<or> read_rush w = Inl EmptyDataError"
    using read_rush_bad [of w] read_rush_no_header [of w lines] by blast
  show "\<exists>e. main w = (Some e, w) \<and> e \<in> {JSONDecodeError, ParserError, EmptyDataError}"
  proof (cases "nuget_file w")
    case None
    from read_nuget_absent [OF this] r show ?thesis by (auto simp: main_def)
  next
    case (Some doc)
    show ?thesis
    proof (cases doc)
      case NotJson
      with Some a read_nuget_bad [of w] show ?thesis by (simp add: main_def)
    next
      case (JsonDoc j)
      with Some a read_nuget_doc [of w j] r show ?thesis by (auto simp: main_def)
    qed
  qed
qed

theorem malformed_input_fatal_witness:
  "main bad_json = (Some JSONDecodeError, bad_json)
   \<and> (\<exists>e. main bad_csv = (Some e, bad_csv) \<and> e \<in> {JSONDecodeError, ParserError, EmptyDataError})"
proof -
  have d1: "dir_present bad_json \<and> nuget_file bad_json = Some NotJson"
    by (simp add: example_defs)
  have d2: "dir_present bad_csv \<and> (rush_file bad_csv = Some NotCsv \<or> rush_file bad_csv = Some (CsvDoc [] []))"
    by (simp add: example_defs)
  show ?thesis
    using d1 d2 malformed_input_fatal [of bad_json "[]"] malformed_input_fatal [of bad_csv "[]"]
    by simp
qed

text \<open>
  Claim C10. When the directory \<^verbatim>\<open>./license-reports\<close> does not exist, both reads are
  recovered as empty datasets, and opening the workbook writer then raises an exception
  that nothing catches: the run fails, with nothing written and nothing printed.
\<close>

theorem missing_directory_fatal:
  "\<not> dir_present w \<Longrightarrow>
   read_nuget w = Inr (JArr []) \<and> read_rush w = Inr DataFrame \<and>
   main w = (Some NoSuchDirectory, w)"
  by (simp add: main_def read_nuget_no_dir read_rush_no_dir write_report_no_dir)

theorem missing_directory_fatal_witness:
  "\<not> dir_present no_directory \<and> read_nuget no_directory = Inr (JArr [])
   \<and> read_rush no_directory = Inr DataFrame
   \<and> main no_directory = (Some NoSuchDirectory, no_directory)"
proof -
  have d: "\<not> dir_present no_directory"
    by (simp add: example_defs)
  show ?thesis
    using d missing_directory_fatal [OF d] by simp
qed

subsection \<open>Missing inputs\<close>




subsection \<open>The shape of the NuGet input\<close>




subsection \<open>Flattening\<close>

text \<open>
  Claim C6. For a non-empty list of records, the flattening gives a table with exactly
  one row per record, every row as wide as the list of columns; the columns are distinct,
  and they are exactly the dotted names of the key paths of the records. The row of a
  record holds, in the column of a key path, the value that path leads to (provided no
  other path of the record with the same dotted name leads to another value).
\<close>

theorem flattening_rows_and_columns:
  assumes "rs \<noteq> []" and "list_all is_record rs"
  shows "\<exists>df. json_normalize (JArr rs) = Inr df
     \<and> length (rows df) = length rs
     \<and> (\<forall>row \<in> set (rows df). length row = length (columns df))
     \<and> distinct (columns df)
     \<and> set (columns df) = (\<Union>r \<in> set rs. dotted ` fst ` set (leaves [] r))
     \<and> (\<forall>i < length rs. \<forall>(p, v) \<in> set (leaves [] (rs ! i)).
          (\<forall>(q, x) \<in> set (leaves [] (rs ! i)). dotted q = dotted p \<longrightarrow> x = v) \<longrightarrow>
          map_of (zip (columns df) (rows df ! i)) (dotted p) = Some (Some v))"
proof -
  let ?recs = "map (\<lambda>r. flatten_record (members r)) rs"
  let ?df = "frame_of_records ?recs"
  have jn: "json_normalize (JArr rs) = Inr ?df"
    using assms by (rule json_normalize_records)
  have rec: "\<And>r. r \<in> set rs \<Longrightarrow> set (flatten_record (members r)) = named ` set (leaves [] r)"
    using assms(2) by (simp add: list_all_iff record_columns)
  have cols: "set (columns ?df) = (\<Union>r \<in> set rs. dotted ` fst ` set (leaves [] r))"
  proof -
    have "set (columns ?df) = (\<Union>r \<in> set rs. fst ` set (flatten_record (members r)))"
      by (simp add: frame_columns(1))
    also have "\<dots> = (\<Union>r \<in> set rs. fst ` named ` set (leaves [] r))"
      using rec by simp
    also have "\<dots> = (\<Union>r \<in> set rs. dotted ` fst ` set (leaves [] r))"
      by (simp add: image_image fst_named)
    finally show ?thesis .
  qed
  have cells: "map_of (zip (columns ?df) (rows ?df ! i)) (dotted p) = Some (Some v)"
    if i: "i < length rs" and pv: "(p, v) \<in> set (leaves [] (rs ! i))"
      and u: "\<forall>(q, x) \<in> set (leaves [] (rs ! i)). dotted q = dotted p \<longrightarrow> x = v"
    for i p v
  proof -
    have r: "rs ! i \<in> set rs" using i by simp
    have items: "set (?recs ! i) = named ` set (leaves [] (rs ! i))"
      using i rec [OF r] by simp
    have "named (p, v) \<in> set (?recs ! i)"
      using pv items by blast
    then have mem: "(dotted p, v) \<in> set (?recs ! i)"
      by (simp add: named_def)
    have uniq: "\<And>v'. (dotted p, v') \<in> set (?recs ! i) \<Longrightarrow> v' = v"
    proof -
      fix v' assume "(dotted p, v') \<in> set (?recs ! i)"
      then obtain q x where "(q, x) \<in> set (leaves [] (rs ! i))" and "named (q, x) = (dotted p, v')"
        using items by auto
      then show "v' = v" using u by (auto simp: named_def)
    qed
    have "dotted p \<in> set (columns ?df)"
      using cols r pv by force
    moreover have "i < length ?recs" using i by simp
    ultimately have "map_of (zip (columns ?df) (rows ?df ! i)) (dotted p)
        = Some (lookup_last (?recs ! i) (dotted p))"
      by (rule frame_cell [rotated])
    then show ?thesis
      using lookup_last_unique [OF mem uniq] by simp
  qed
  have "length (rows ?df) = length rs"
    by (simp add: frame_rows)
  moreover have "\<forall>row \<in> set (rows ?df). length row = length (columns ?df)"
    using frame_width by blast
  moreover have "distinct (columns ?df)"
    by (rule frame_columns(2))
  ultimately show ?thesis
    using jn cols cells by blast
qed

theorem flattening_rows_and_columns_witness:
  "nested_package \<noteq> [] \<and> list_all is_record nested_package
   \<and> (\<exists>df. json_normalize (JArr nested_package) = Inr df
     \<and> length (rows df) = length nested_package
     \<and> (\<forall>row \<in> set (rows df). length row = length (columns df))
     \<and> distinct (columns df)
     \<and> set (columns df) = (\<Union>r \<in> set nested_package. dotted ` fst ` set (leaves [] r))
     \<and> (\<forall>i < length nested_package. \<forall>(p, v) \<in> set (leaves [] (nested_package ! i)).
          (\<forall>(q, x) \<in> set (leaves [] (nested_package ! i)). dotted q = dotted p \<longrightarrow> x = v) \<longrightarrow>
          map_of (zip (columns df) (rows df ! i)) (dotted p) = Some (Some v)))"
proof -
  have h1: "nested_package \<noteq> []" by (simp add: nested_package_def)
  have h2: "list_all is_record nested_package" by (simp add: nested_package_def)
  from flattening_rows_and_columns [OF h1 h2] h1 h2 show ?thesis by blast
qed

text \<open>The table of two records, one of them nested.\<close>

lemma nested_package_frame:
  "json_normalize (JArr nested_package) =
     Inr \<lparr>columns = [''name'', ''license.type'', ''license.url'', ''version''],
          rows = [[Some (JStr ''A''), Some (JStr ''MIT''), Some JNull, None],
                  [Some (JStr ''B''), None, None, Some (JInt 2)]]\<rparr>"
  by (simp add: nested_package_def is_array_def frame_of_records_def flatten_record_def
      first_seen_def lookup_last_def Let_def)

subsection \<open>Determinism\<close>




end
